theory Spec2Isabelle
  imports Main "HOL-Library.Multiset"
begin

section \<open>Data model of the StatefulSet control loop\<close>

text \<open>
  The theory embeds \<^verbatim>\<open>pkg/controller/statefulset/stateful_set_control.go\<close>:
  \<^verbatim>\<open>UpdateStatefulSet\<close>, \<^verbatim>\<open>ListRevisions\<close>, \<^verbatim>\<open>truncateHistory\<close>,
  \<^verbatim>\<open>getStatefulSetRevisions\<close>, \<^verbatim>\<open>updateStatefulSet\<close> and \<^verbatim>\<open>updateStatefulSetStatus\<close>.
  Go's \<^verbatim>\<open>int32\<close>/\<^verbatim>\<open>int64\<close> counters are \<open>int\<close>: the code only adds and subtracts
  one per observed Pod, so no counter comes near the wrap-around. The \<^verbatim>\<open>klog\<close> lines are
  not modelled. The StatefulSet, \<^verbatim>\<open>set\<close> in the source, is written \<open>ss\<close>.
\<close>

datatype error = ApiError string

text \<open>The result of a Go function that returns \<^verbatim>\<open>error\<close>: \<open>NilError\<close> for \<^verbatim>\<open>nil\<close>, \<open>Error e\<close> for a
  returned error, \<open>Panic\<close> for a run-time panic (index out of range, nil dereference).\<close>

datatype outcome = NilError | Error error | Panic

datatype phase = PodPending | PodRunning | PodSucceeded | PodFailed | PodUnknown

text \<open>A Pod, with the attributes the control loop reads. \<open>podOrdinal\<close> is the ordinal in
  the Pod's name, \<open>podRevision\<close> the value of its revision label, \<open>podPhase\<close> is \<open>None\<close>
  for Go's empty phase (a Pod that was never sent to the API server). The identity and
  the storage of a Pod are recorded as the (set name, ordinal) pair they are bound to.\<close>

record pod =
  podOrdinal :: int
  podRevision :: string
  podPhase :: "phase option"
  podReady :: bool
  podDeletionTimestamp :: "nat option"
  podIdentity :: "string \<times> int"
  podStorage :: "string \<times> int"
  podTemplate :: string

record controllerRevision =
  revName :: string
  revRevision :: int
  revCreated :: nat
  revData :: string

record statefulSetStatus =
  ObservedGeneration :: int
  Replicas :: int
  ReadyReplicas :: int
  CurrentReplicas :: int
  UpdatedReplicas :: int
  CurrentRevision :: string
  UpdateRevision :: string
  CollisionCount :: "int option"

datatype strategyType = RollingUpdateStatefulSetStrategyType | OnDeleteStatefulSetStrategyType

text \<open>A StatefulSet. \<open>specReplicas\<close> and \<open>specRevisionHistoryLimit\<close> are the values behind
  the pointers \<^verbatim>\<open>Spec.Replicas\<close> and \<^verbatim>\<open>Spec.RevisionHistoryLimit\<close> (set by defaulting before
  the controller runs); \<open>specRollingUpdate\<close> is \<open>None\<close> when
  \<^verbatim>\<open>Spec.UpdateStrategy.RollingUpdate\<close> is nil and \<open>Some p\<close> for partition \<open>p\<close>;
  \<open>specSelectorError\<close> is the error, if any, of converting \<^verbatim>\<open>Spec.Selector\<close>.\<close>

record statefulSet =
  setName :: string
  setGeneration :: int
  setDeletionTimestamp :: "nat option"
  specSelectorError :: "error option"
  specReplicas :: int
  specTemplate :: string
  specUpdateStrategyType :: strategyType
  specRollingUpdate :: "int option"
  specRevisionHistoryLimit :: int
  setStatus :: statefulSetStatus

section \<open>The collaborators: Pod control, revision history, status updater, recorder\<close>

text \<open>The three call sites of \<^verbatim>\<open>DeleteStatefulPod\<close> in \<^verbatim>\<open>updateStatefulSet\<close>: the repair of a
  failed Pod (line 335), the scale down (line 402) and the rolling update (line 434).\<close>

datatype deleteSite = ForRecreate | ForScaleDown | ForUpdate

text \<open>Every call the control loop makes on one of its collaborators.\<close>

datatype call =
    ListControllerRevisions
  | CreateControllerRevision controllerRevision
  | UpdateControllerRevision controllerRevision int
  | DeleteControllerRevision controllerRevision
  | Eventf string pod
  | DeleteStatefulPod deleteSite pod
  | CreateStatefulPod pod
  | UpdateStatefulPod statefulSet pod
  | UpdateStatefulSetStatus statefulSetStatus

text \<open>The platform decides which call fails: \<open>failure env calls c\<close> is the error of call
  \<open>c\<close> made after the calls \<open>calls\<close>, \<open>None\<close> when it succeeds. \<open>collisions\<close> is the
  number of name collisions a create of a revision meets, \<open>HashControllerRevision\<close> the
  hash of a template and a collision count.\<close>

record platform =
  failure :: "call list \<Rightarrow> call \<Rightarrow> error option"
  collisions :: "call list \<Rightarrow> call \<Rightarrow> nat"
  HashControllerRevision :: "string \<Rightarrow> int \<Rightarrow> string"

text \<open>The state outside the control loop: the revisions in the store, and the calls made
  so far, oldest first.\<close>

record world =
  store :: "controllerRevision list"
  trace :: "call list"

text \<open>Modelled from the spec: the revision store's \<^verbatim>\<open>update\<close> bumps the Revision integer
  of the record of that name, \<^verbatim>\<open>delete\<close> removes the record of that name, \<^verbatim>\<open>create\<close>
  persists the record. (The store, \<^verbatim>\<open>pkg/controller/history\<close>, is not in the sources.)\<close>

fun storeEffect :: "call \<Rightarrow> controllerRevision list \<Rightarrow> controllerRevision list" where
  "storeEffect (CreateControllerRevision r) s = s @ [r]"
| "storeEffect (UpdateControllerRevision r n) s =
     map (\<lambda>x. if revName x = revName r then x\<lparr>revRevision := n\<rparr> else x) s"
| "storeEffect (DeleteControllerRevision r) s = filter (\<lambda>x. revName x \<noteq> revName r) s"
| "storeEffect c s = s"

text \<open>One call: it is recorded, the platform says whether it fails, and a call that
  succeeds has its effect on the store.\<close>

definition invoke :: "platform \<Rightarrow> call \<Rightarrow> world \<Rightarrow> error option \<times> world" where
  "invoke env c w =
     (case failure env (trace w) c of
        Some e \<Rightarrow> (Some e, w\<lparr>trace := trace w @ [c]\<rparr>)
      | None \<Rightarrow> (None, \<lparr>store = storeEffect c (store w), trace = trace w @ [c]\<rparr>))"

section \<open>Helpers of the package that the control loop calls\<close>

text \<open>Modelled from the spec: the health classifications of section 3 (the helpers are in
  \<^verbatim>\<open>stateful_set_utils.go\<close>, which is not in the sources). created: the replica exists on
  the platform; terminating: deletion timestamp set; running-and-ready: phase Running and
  ready; healthy: running-and-ready and not terminating; failed: phase Failed.\<close>

definition isCreated :: "pod \<Rightarrow> bool" where
  "isCreated p = (podPhase p \<noteq> None)"

definition isTerminating :: "pod \<Rightarrow> bool" where
  "isTerminating p = (podDeletionTimestamp p \<noteq> None)"

definition isRunningAndReady :: "pod \<Rightarrow> bool" where
  "isRunningAndReady p = (podPhase p = Some PodRunning \<and> podReady p)"

definition isHealthy :: "pod \<Rightarrow> bool" where
  "isHealthy p = (isRunningAndReady p \<and> \<not> isTerminating p)"

definition isFailed :: "pod \<Rightarrow> bool" where
  "isFailed p = (podPhase p = Some PodFailed)"

definition getPodRevision :: "pod \<Rightarrow> string" where
  "getPodRevision p = podRevision p"

definition getOrdinal :: "pod \<Rightarrow> int" where
  "getOrdinal p = podOrdinal p"

text \<open>Modelled from the spec: identity and storage bindings are a pure function of
  (set, ordinal); a Pod matches when it is bound to the set's name and its own ordinal.\<close>

definition identityMatches :: "statefulSet \<Rightarrow> pod \<Rightarrow> bool" where
  "identityMatches ss p = (podIdentity p = (setName ss, getOrdinal p))"

definition storageMatches :: "statefulSet \<Rightarrow> pod \<Rightarrow> bool" where
  "storageMatches ss p = (podStorage p = (setName ss, getOrdinal p))"

text \<open>Modelled from the spec: \<^verbatim>\<open>applyRevision(set, revision)\<close> is the set with the template
  the revision recorded.\<close>

definition ApplyRevision :: "statefulSet \<Rightarrow> controllerRevision \<Rightarrow> error + statefulSet" where
  "ApplyRevision ss revision = Inr (ss\<lparr>specTemplate := revData revision\<rparr>)"

definition partitionOf :: "statefulSet \<Rightarrow> int" where
  "partitionOf ss = (case specRollingUpdate ss of None \<Rightarrow> 0 | Some p \<Rightarrow> p)"

text \<open>Modelled from the spec: the replica materializer. Given (currentSet, updateSet,
  currentRevisionName, updateRevisionName, ordinal) it produces an unpersisted replica
  descriptor: if the ordinal is below the partition it uses currentSet with the current
  revision's name as tag, else updateSet with the update revision's name.\<close>

definition newStatefulSetPod :: "statefulSet \<Rightarrow> int \<Rightarrow> pod" where
  "newStatefulSetPod ss ordinal =
     \<lparr>podOrdinal = ordinal, podRevision = [], podPhase = None, podReady = False,
      podDeletionTimestamp = None, podIdentity = (setName ss, ordinal),
      podStorage = (setName ss, ordinal), podTemplate = specTemplate ss\<rparr>"

definition newVersionedStatefulSetPod ::
  "statefulSet \<Rightarrow> statefulSet \<Rightarrow> string \<Rightarrow> string \<Rightarrow> int \<Rightarrow> pod" where
  "newVersionedStatefulSetPod currentSet updateSet currentRevision updateRevision ordinal =
     (if ordinal < partitionOf currentSet
      then (newStatefulSetPod currentSet ordinal)\<lparr>podRevision := currentRevision\<rparr>
      else (newStatefulSetPod updateSet ordinal)\<lparr>podRevision := updateRevision\<rparr>)"

text \<open>Go's \<^verbatim>\<open>xs[i]\<close>: \<open>None\<close> where Go panics with an index out of range.\<close>

definition index :: "'a list \<Rightarrow> int \<Rightarrow> 'a option" where
  "index xs i = (if 0 \<le> i \<and> i < int (length xs) then Some (xs ! nat i) else None)"

section \<open>Revisions\<close>

fun stringLess :: "string \<Rightarrow> string \<Rightarrow> bool" where
  "stringLess [] [] = False"
| "stringLess [] (y # ys) = True"
| "stringLess (x # xs) [] = False"
| "stringLess (x # xs) (y # ys) =
     ((of_char x :: nat) < of_char y \<or> (x = y \<and> stringLess xs ys))"

text \<open>Modelled from the spec: the list of revisions is in ascending (Revision,
  CreationTimestamp, Name) order; \<^verbatim>\<open>history.SortControllerRevisions\<close> is a stable sort.\<close>

definition revisionLess :: "controllerRevision \<Rightarrow> controllerRevision \<Rightarrow> bool" where
  "revisionLess a b =
     (revRevision a < revRevision b \<or>
      (revRevision a = revRevision b \<and>
        (revCreated a < revCreated b \<or>
         (revCreated a = revCreated b \<and> stringLess (revName a) (revName b)))))"

fun insertRevision :: "controllerRevision \<Rightarrow> controllerRevision list \<Rightarrow> controllerRevision list" where
  "insertRevision r [] = [r]"
| "insertRevision r (x # xs) =
     (if revisionLess x r then x # insertRevision r xs else r # x # xs)"

definition SortControllerRevisions :: "controllerRevision list \<Rightarrow> controllerRevision list" where
  "SortControllerRevisions revisions = foldr insertRevision revisions []"

text \<open>Modelled from the spec: two revisions are equivalent when their templates are
  structurally equal, regardless of Revision or name.\<close>

definition EqualRevision :: "controllerRevision \<Rightarrow> controllerRevision \<Rightarrow> bool" where
  "EqualRevision lhs rhs = (revData lhs = revData rhs)"

definition FindEqualRevisions ::
  "controllerRevision list \<Rightarrow> controllerRevision \<Rightarrow> controllerRevision list" where
  "FindEqualRevisions revisions needle = filter (\<lambda>r. EqualRevision r needle) revisions"

text \<open>Modelled from the spec: the candidate has Revision = (max existing Revision) + 1,
  and 1 when there is no revision yet (scenario S1).\<close>

definition nextRevision :: "controllerRevision list \<Rightarrow> int" where
  "nextRevision revisions =
     (case revisions of [] \<Rightarrow> 1
      | r # rs \<Rightarrow> fold max (map revRevision rs) (revRevision r) + 1)"

definition ControllerRevisionName :: "string \<Rightarrow> string \<Rightarrow> string" where
  "ControllerRevisionName prefix hash = prefix @ ''-'' @ hash"

text \<open>Modelled from the spec: a freshly constructed revision capturing the current
  template, with a name derived from (set name, hash of the template, collisionCount).\<close>

definition newRevision :: "platform \<Rightarrow> statefulSet \<Rightarrow> int \<Rightarrow> int \<Rightarrow> error + controllerRevision" where
  "newRevision env ss revision collisionCount =
     Inr \<lparr>revName = ControllerRevisionName (setName ss)
                     (HashControllerRevision env (specTemplate ss) collisionCount),
          revRevision = revision, revCreated = 0, revData = specTemplate ss\<rparr>"

text \<open>Modelled from the spec: \<^verbatim>\<open>update(revision, newRevisionNumber)\<close> bumps the Revision
  integer on an existing record and returns the bumped record.\<close>

definition controllerHistory_Update ::
  "platform \<Rightarrow> controllerRevision \<Rightarrow> int \<Rightarrow> world \<Rightarrow> (error + controllerRevision) \<times> world" where
  "controllerHistory_Update env revision newRev w =
     (case invoke env (UpdateControllerRevision revision newRev) w of
        (Some e, w') \<Rightarrow> (Inl e, w')
      | (None, w') \<Rightarrow> (Inr (revision\<lparr>revRevision := newRev\<rparr>), w'))"

text \<open>Modelled from the spec: \<^verbatim>\<open>create(set, revision, &collisionCount)\<close> persists a new
  revision; on a name collision it increments collisionCount and recomputes the name; it
  fails or returns the persisted revision. The second component is the collision count
  the call leaves behind the pointer.\<close>

definition controllerHistory_Create ::
  "platform \<Rightarrow> statefulSet \<Rightarrow> controllerRevision \<Rightarrow> int \<Rightarrow> world \<Rightarrow>
     ((error + controllerRevision) \<times> int) \<times> world" where
  "controllerHistory_Create env ss revision collisionCount w =
     (let cc = collisionCount + int (collisions env (trace w) (CreateControllerRevision revision));
          created = revision\<lparr>revName := ControllerRevisionName (setName ss)
                       (HashControllerRevision env (revData revision) cc)\<rparr>
      in case failure env (trace w) (CreateControllerRevision revision) of
           Some e \<Rightarrow> ((Inl e, cc), w\<lparr>trace := trace w @ [CreateControllerRevision revision]\<rparr>)
         | None \<Rightarrow> ((Inr created, cc),
                    \<lparr>store = store w @ [created],
                     trace = trace w @ [CreateControllerRevision revision]\<rparr>))"

section \<open>getStatefulSetRevisions\<close>

text \<open>Lines 203-225: the update revision. The candidate is compared with the history;
  the last revision is reused, an older equivalent one is bumped through the store, or
  the candidate is created. The operands of \<^verbatim>\<open>&&\<close> are read only when \<^verbatim>\<open>equalCount > 0\<close>.
  The result is the update revision (\<open>Inr\<close>) or what stopped the function (\<open>Inl\<close>), and
  the collision count.\<close>

definition chooseUpdateRevision ::
  "platform \<Rightarrow> statefulSet \<Rightarrow> controllerRevision list \<Rightarrow> int \<Rightarrow> controllerRevision \<Rightarrow> int \<Rightarrow>
     world \<Rightarrow> ((outcome + controllerRevision) \<times> int) \<times> world" where
  "chooseUpdateRevision env ss revisions revisionCount updateRevision collisionCount w =
     (let equalRevisions = FindEqualRevisions revisions updateRevision;
          equalCount = int (length equalRevisions)
      in if equalCount > 0 then
           (case index revisions (revisionCount - 1) of
              None \<Rightarrow> ((Inl Panic, collisionCount), w)
            | Some lastRevision \<Rightarrow>
               (case index equalRevisions (equalCount - 1) of
                  None \<Rightarrow> ((Inl Panic, collisionCount), w)
                | Some lastEqual \<Rightarrow>
                   if EqualRevision lastRevision lastEqual
                   then ((Inr lastRevision, collisionCount), w)
                   else (case controllerHistory_Update env lastEqual (revRevision updateRevision) w of
                           (Inl e, w') \<Rightarrow> ((Inl (Error e), collisionCount), w')
                         | (Inr updated, w') \<Rightarrow> ((Inr updated, collisionCount), w'))))
         else
           (case controllerHistory_Create env ss updateRevision collisionCount w of
              ((Inl e, cc), w') \<Rightarrow> ((Inl (Error e), cc), w')
            | ((Inr created, cc), w') \<Rightarrow> ((Inr created, cc), w')))"

text \<open>Lines 228-238: the current revision is the first revision with the name in the
  set's status, and the update revision when there is none.\<close>

definition findCurrentRevision ::
  "statefulSet \<Rightarrow> controllerRevision list \<Rightarrow> controllerRevision \<Rightarrow> controllerRevision" where
  "findCurrentRevision ss revisions updateRevision =
     (case find (\<lambda>r. revName r = CurrentRevision (setStatus ss)) revisions of
        Some currentRevision \<Rightarrow> currentRevision
      | None \<Rightarrow> updateRevision)"

text \<open>\<^verbatim>\<open>getStatefulSetRevisions\<close>, lines 182-241. The result is the current and the update
  revision (\<open>Inr\<close>) or what stopped the function (\<open>Inl\<close>), and the collision count.\<close>

definition getStatefulSetRevisions ::
  "platform \<Rightarrow> statefulSet \<Rightarrow> controllerRevision list \<Rightarrow> world \<Rightarrow>
     ((outcome + controllerRevision \<times> controllerRevision) \<times> int) \<times> world" where
  "getStatefulSetRevisions env ss revisions0 w =
     (let revisionCount = int (length revisions0);
          revisions = SortControllerRevisions revisions0;
          collisionCount = (case CollisionCount (setStatus ss) of None \<Rightarrow> 0 | Some c \<Rightarrow> c)
      in case newRevision env ss (nextRevision revisions) collisionCount of
           Inl e \<Rightarrow> ((Inl (Error e), collisionCount), w)
         | Inr candidate \<Rightarrow>
            (case chooseUpdateRevision env ss revisions revisionCount candidate collisionCount w of
               ((Inl stopped, cc), w') \<Rightarrow> ((Inl stopped, cc), w')
             | ((Inr updateRevision, cc), w') \<Rightarrow>
                 ((Inr (findCurrentRevision ss revisions updateRevision, updateRevision), cc), w')))"

section \<open>truncateHistory\<close>

text \<open>Line 167, \<^verbatim>\<open>history[:n]\<close> on a slice of capacity \<open>cap\<close>: Go panics when \<open>n\<close> is
  negative or beyond the capacity; between the length and the capacity the slice is
  extended with the zero values of the backing array, here nil revisions (\<open>None\<close>).\<close>

definition slicePrefix ::
  "controllerRevision list \<Rightarrow> int \<Rightarrow> int \<Rightarrow> controllerRevision option list option" where
  "slicePrefix history cap n =
     (if n < 0 \<or> cap < n then None
      else Some (map Some (take (nat n) history) @ replicate (nat n - length history) None))"

text \<open>Lines 168-172. Deleting a nil revision is a nil dereference in the store.\<close>

fun deleteRevisions :: "platform \<Rightarrow> controllerRevision option list \<Rightarrow> world \<Rightarrow> outcome \<times> world" where
  "deleteRevisions env [] w = (NilError, w)"
| "deleteRevisions env (None # rest) w = (Panic, w)"
| "deleteRevisions env (Some r # rest) w =
     (case invoke env (DeleteControllerRevision r) w of
        (Some e, w') \<Rightarrow> (Error e, w')
      | (None, w') \<Rightarrow> deleteRevisions env rest w')"

text \<open>Lines 151-154: the names marked live, in the order they are entered in the map.\<close>

definition liveNames :: "pod list \<Rightarrow> controllerRevision \<Rightarrow> controllerRevision \<Rightarrow> string list" where
  "liveNames pods current update = [revName current, revName update] @ map getPodRevision pods"


definition truncateHistory ::
  "platform \<Rightarrow> statefulSet \<Rightarrow> pod list \<Rightarrow> controllerRevision list \<Rightarrow> controllerRevision \<Rightarrow>
     controllerRevision \<Rightarrow> world \<Rightarrow> outcome \<times> world" where
  "truncateHistory env ss pods revisions current update w =
     (let live = liveNames pods current update;
          history = filter (\<lambda>r. revName r \<notin> set live) revisions;
          historyLen = int (length history);
          historyLimit = specRevisionHistoryLimit ss
      in if historyLen \<le> historyLimit then (NilError, w)
         else (case slicePrefix history (int (length revisions)) (historyLen - historyLimit) of
                 None \<Rightarrow> (Panic, w)
               | Some doomed \<Rightarrow> deleteRevisions env doomed w))"

section \<open>updateStatefulSet\<close>

text \<open>Lines 279-301, the body of the first loop: the status counts, and the unhealthy Pods.\<close>

definition countPod ::
  "controllerRevision \<Rightarrow> controllerRevision \<Rightarrow> pod \<Rightarrow> statefulSetStatus \<times> pod list \<Rightarrow>
     statefulSetStatus \<times> pod list" where
  "countPod currentRevision updateRevision p acc =
     (let status = fst acc; unhealthy = snd acc;
          status = status\<lparr>Replicas := Replicas status + 1\<rparr>;
          status = (if isRunningAndReady p
                    then status\<lparr>ReadyReplicas := ReadyReplicas status + 1\<rparr> else status);
          status = (if isCreated p \<and> \<not> isTerminating p \<and> getPodRevision p = revName currentRevision
                    then status\<lparr>CurrentReplicas := CurrentReplicas status + 1\<rparr> else status);
          status = (if isCreated p \<and> \<not> isTerminating p \<and> getPodRevision p = revName updateRevision
                    then status\<lparr>UpdatedReplicas := UpdatedReplicas status + 1\<rparr> else status)
      in (status, if \<not> isHealthy p then unhealthy @ [p] else unhealthy))"

fun gatherStatus ::
  "controllerRevision \<Rightarrow> controllerRevision \<Rightarrow> pod list \<Rightarrow> statefulSetStatus \<times> pod list \<Rightarrow>
     statefulSetStatus \<times> pod list" where
  "gatherStatus currentRevision updateRevision [] acc = acc"
| "gatherStatus currentRevision updateRevision (p # ps) acc =
     gatherStatus currentRevision updateRevision ps (countPod currentRevision updateRevision p acc)"

text \<open>Lines 303-311: one new Pod for every \<open>i\<close> from the number of Pods up to
  \<^verbatim>\<open>Spec.Replicas\<close>. The ordinal handed to \<^verbatim>\<open>newVersionedStatefulSetPod\<close> is
  \<^verbatim>\<open>int(status.ObservedGeneration)\<close>; the loop variable is not used in the body.\<close>

function missingPods ::
  "statefulSet \<Rightarrow> statefulSet \<Rightarrow> controllerRevision \<Rightarrow> controllerRevision \<Rightarrow> statefulSetStatus \<Rightarrow>
     int \<Rightarrow> int \<Rightarrow> pod list \<Rightarrow> pod list" where
  "missingPods currentSet updateSet currentRevision updateRevision status i n unhealthy =
     (if i < n
      then missingPods currentSet updateSet currentRevision updateRevision status (i + 1) n
             (unhealthy @ [newVersionedStatefulSetPod currentSet updateSet
                             (revName currentRevision) (revName updateRevision)
                             (ObservedGeneration status)])
      else unhealthy)"
  by pat_completeness auto
termination
  by (relation "measure (\<lambda>(cs, us, cr, ur, st, i, n, uh). nat (n - i))") auto

text \<open>Lines 338-344 and 405-410: the counters when a Pod has been deleted.\<close>

definition forgetRevision ::
  "controllerRevision \<Rightarrow> controllerRevision \<Rightarrow> pod \<Rightarrow> statefulSetStatus \<Rightarrow> statefulSetStatus" where
  "forgetRevision currentRevision updateRevision p status =
     (let status = (if getPodRevision p = revName currentRevision
                    then status\<lparr>CurrentReplicas := CurrentReplicas status - 1\<rparr> else status)
      in if getPodRevision p = revName updateRevision
         then status\<lparr>UpdatedReplicas := UpdatedReplicas status - 1\<rparr> else status)"

text \<open>Lines 357-363: the counters when a Pod has been created.\<close>

definition countCreated ::
  "controllerRevision \<Rightarrow> controllerRevision \<Rightarrow> pod \<Rightarrow> statefulSetStatus \<Rightarrow> statefulSetStatus" where
  "countCreated currentRevision updateRevision p status =
     (let status = status\<lparr>Replicas := Replicas status + 1\<rparr>;
          status = (if getPodRevision p = revName currentRevision
                    then status\<lparr>CurrentReplicas := CurrentReplicas status + 1\<rparr> else status)
      in if getPodRevision p = revName updateRevision
         then status\<lparr>UpdatedReplicas := UpdatedReplicas status + 1\<rparr> else status)"

text \<open>Lines 352-376, the rest of the body of the second loop once a failed Pod has been
  replaced: create a Pod that is not created, else update one whose identity or storage
  does not match.\<close>

definition createOrUpdate ::
  "platform \<Rightarrow> statefulSet \<Rightarrow> statefulSet \<Rightarrow> controllerRevision \<Rightarrow> controllerRevision \<Rightarrow> pod \<Rightarrow>
     statefulSetStatus \<Rightarrow> world \<Rightarrow> outcome \<times> statefulSetStatus \<times> world" where
  "createOrUpdate env ss updateSet currentRevision updateRevision p status w =
     (if \<not> isCreated p then
        (case invoke env (CreateStatefulPod p) w of
           (Some e, w') \<Rightarrow> (Error e, status, w')
         | (None, w') \<Rightarrow> (NilError, countCreated currentRevision updateRevision p status, w'))
      else if identityMatches ss p \<and> storageMatches ss p then (NilError, status, w)
      else (case invoke env (UpdateStatefulPod updateSet p) w of
              (Some e, w') \<Rightarrow> (Error e, status, w')
            | (None, w') \<Rightarrow> (NilError, status, w')))"

text \<open>Lines 328-376, the body of the second loop. The recorder's \<^verbatim>\<open>Eventf\<close> returns nothing.\<close>

definition repairPod ::
  "platform \<Rightarrow> statefulSet \<Rightarrow> statefulSet \<Rightarrow> statefulSet \<Rightarrow> controllerRevision \<Rightarrow>
     controllerRevision \<Rightarrow> pod \<Rightarrow> statefulSetStatus \<Rightarrow> world \<Rightarrow> outcome \<times> statefulSetStatus \<times> world" where
  "repairPod env ss currentSet updateSet currentRevision updateRevision p status w =
     (if isFailed p then
        (let w1 = w\<lparr>trace := trace w @ [Eventf ''RecreatingFailedPod'' p]\<rparr>
         in case invoke env (DeleteStatefulPod ForRecreate p) w1 of
              (Some e, w') \<Rightarrow> (Error e, status, w')
            | (None, w') \<Rightarrow>
               (let status = forgetRevision currentRevision updateRevision p status;
                    status = status\<lparr>Replicas := Replicas status - 1\<rparr>;
                    p = newVersionedStatefulSetPod currentSet updateSet
                          (revName currentRevision) (revName updateRevision) (getOrdinal p)
                in createOrUpdate env ss updateSet currentRevision updateRevision p status w'))
      else createOrUpdate env ss updateSet currentRevision updateRevision p status w)"

fun repairUnhealthy ::
  "platform \<Rightarrow> statefulSet \<Rightarrow> statefulSet \<Rightarrow> statefulSet \<Rightarrow> controllerRevision \<Rightarrow>
     controllerRevision \<Rightarrow> pod list \<Rightarrow> statefulSetStatus \<Rightarrow> world \<Rightarrow> outcome \<times> statefulSetStatus \<times> world" where
  "repairUnhealthy env ss currentSet updateSet currentRevision updateRevision [] status w =
     (NilError, status, w)"
| "repairUnhealthy env ss currentSet updateSet currentRevision updateRevision (p # rest) status w =
     (case repairPod env ss currentSet updateSet currentRevision updateRevision p status w of
        (NilError, status', w') \<Rightarrow>
          repairUnhealthy env ss currentSet updateSet currentRevision updateRevision rest status' w'
      | stopped \<Rightarrow> stopped)"

text \<open>Lines 384-411: the scale down, from the last Pod of the list downwards.\<close>

function scaleDown ::
  "platform \<Rightarrow> controllerRevision \<Rightarrow> controllerRevision \<Rightarrow> pod list \<Rightarrow> int \<Rightarrow> int \<Rightarrow>
     statefulSetStatus \<Rightarrow> world \<Rightarrow> outcome \<times> statefulSetStatus \<times> world" where
  "scaleDown env currentRevision updateRevision pods target needToDelete status w =
     (if target \<ge> 0 \<and> needToDelete > 0 then
        (case index pods target of
           None \<Rightarrow> (Panic, status, w)
         | Some p \<Rightarrow>
            if isTerminating p
            then scaleDown env currentRevision updateRevision pods (target - 1) (needToDelete - 1)
                   status w
            else (case invoke env (DeleteStatefulPod ForScaleDown p) w of
                    (Some e, w') \<Rightarrow> (Error e, status, w')
                  | (None, w') \<Rightarrow>
                      scaleDown env currentRevision updateRevision pods (target - 1)
                        (needToDelete - 1) (forgetRevision currentRevision updateRevision p status) w'))
      else (NilError, status, w))"
  by pat_completeness auto
termination
  by (relation "measure (\<lambda>(env, cr, ur, pods, target, n, st, w). nat (target + 1))") auto

text \<open>Lines 425-438: the rolling update, from the last Pod of the list down to
  \<^verbatim>\<open>updateMin\<close>. \<^verbatim>\<open>status.CurrentReplicas--\<close> comes before the delete, and the loop goes on
  after a delete that succeeds.\<close>

function rollingUpdate ::
  "platform \<Rightarrow> controllerRevision \<Rightarrow> pod list \<Rightarrow> int \<Rightarrow> int \<Rightarrow>
     statefulSetStatus \<Rightarrow> world \<Rightarrow> outcome \<times> statefulSetStatus \<times> world" where
  "rollingUpdate env updateRevision pods updateMin target status w =
     (if target \<ge> updateMin then
        (case index pods target of
           None \<Rightarrow> (Panic, status, w)
         | Some p \<Rightarrow>
            if getPodRevision p \<noteq> revName updateRevision \<and> \<not> isTerminating p
            then (case invoke env (DeleteStatefulPod ForUpdate p) w of
                    (Some e, w') \<Rightarrow>
                      (Error e, status\<lparr>CurrentReplicas := CurrentReplicas status - 1\<rparr>, w')
                  | (None, w') \<Rightarrow>
                      rollingUpdate env updateRevision pods updateMin (target - 1)
                        (status\<lparr>CurrentReplicas := CurrentReplicas status - 1\<rparr>) w')
            else rollingUpdate env updateRevision pods updateMin (target - 1) status w)
      else (NilError, status, w))"
  by pat_completeness auto
termination
  by (relation "measure (\<lambda>(env, ur, pods, updateMin, target, st, w). nat (target - updateMin + 1))")
     auto

text \<open>Lines 384-440: what follows the second loop.\<close>

definition scaleAndUpdate ::
  "platform \<Rightarrow> statefulSet \<Rightarrow> controllerRevision \<Rightarrow> controllerRevision \<Rightarrow> pod list \<Rightarrow>
     statefulSetStatus \<Rightarrow> world \<Rightarrow> outcome \<times> statefulSetStatus \<times> world" where
  "scaleAndUpdate env ss currentRevision updateRevision pods status w =
     (case scaleDown env currentRevision updateRevision pods (int (length pods) - 1)
             (int (length pods) - specReplicas ss) status w of
        (NilError, status', w') \<Rightarrow>
          if specUpdateStrategyType ss = OnDeleteStatefulSetStrategyType then (NilError, status', w')
          else rollingUpdate env updateRevision pods
                 (case specRollingUpdate ss of None \<Rightarrow> 0 | Some p \<Rightarrow> p)
                 (int (length pods) - 1) status' w'
      | stopped \<Rightarrow> stopped)"

text \<open>Lines 269-311: the status before any action, and the list of unhealthy Pods
  followed by the new Pods for the missing replicas.\<close>

definition initialStatus ::
  "statefulSet \<Rightarrow> controllerRevision \<Rightarrow> controllerRevision \<Rightarrow> int \<Rightarrow> statefulSetStatus" where
  "initialStatus ss currentRevision updateRevision collisionCount =
     \<lparr>ObservedGeneration = setGeneration ss, Replicas = 0, ReadyReplicas = 0,
      CurrentReplicas = 0, UpdatedReplicas = 0, CurrentRevision = revName currentRevision,
      UpdateRevision = revName updateRevision, CollisionCount = Some collisionCount\<rparr>"

definition classify ::
  "statefulSet \<Rightarrow> statefulSet \<Rightarrow> statefulSet \<Rightarrow> controllerRevision \<Rightarrow> controllerRevision \<Rightarrow> int \<Rightarrow>
     pod list \<Rightarrow> statefulSetStatus \<times> pod list" where
  "classify ss currentSet updateSet currentRevision updateRevision collisionCount pods =
     (let gathered = gatherStatus currentRevision updateRevision pods
                       (initialStatus ss currentRevision updateRevision collisionCount, [])
      in (fst gathered,
          missingPods currentSet updateSet currentRevision updateRevision (fst gathered)
            (int (length pods)) (specReplicas ss) (snd gathered)))"

text \<open>\<^verbatim>\<open>updateStatefulSet\<close>, lines 252-441. The result is the returned status (\<open>None\<close> for
  nil, and after a panic), the error, and the world after the calls.\<close>

definition updateStatefulSet ::
  "platform \<Rightarrow> statefulSet \<Rightarrow> controllerRevision \<Rightarrow> controllerRevision \<Rightarrow> int \<Rightarrow> pod list \<Rightarrow>
     world \<Rightarrow> (statefulSetStatus option \<times> outcome) \<times> world" where
  "updateStatefulSet env ss currentRevision updateRevision collisionCount pods w =
     (case ApplyRevision ss currentRevision of
        Inl e \<Rightarrow> ((None, Error e), w)
      | Inr currentSet \<Rightarrow>
         (case ApplyRevision ss updateRevision of
            Inl e \<Rightarrow> ((None, Error e), w)
          | Inr updateSet \<Rightarrow>
             (let classified = classify ss currentSet updateSet currentRevision updateRevision
                                 collisionCount pods
              in if setDeletionTimestamp ss \<noteq> None then ((Some (fst classified), NilError), w)
                 else
                   (case repairUnhealthy env ss currentSet updateSet currentRevision
                           updateRevision (snd classified) (fst classified) w of
                      (NilError, status, w') \<Rightarrow>
                        (case scaleAndUpdate env ss currentRevision updateRevision pods status w' of
                           (Panic, status', w'') \<Rightarrow> ((None, Panic), w'')
                         | (result, status', w'') \<Rightarrow> ((Some status', result), w''))
                    | (Panic, status, w') \<Rightarrow> ((None, Panic), w')
                    | (Error e, status, w') \<Rightarrow> ((Some status, Error e), w')))))"

section \<open>updateStatefulSetStatus\<close>

text \<open>Modelled from the spec (section 4.5; the function is in \<^verbatim>\<open>stateful_set_utils.go\<close>):
  if the strategy is monotonic-rolling, partition P = 0, total replicas = N, updated
  replicas = N, ready replicas = N, and current-revision differs from update-revision,
  then current-revision becomes update-revision and current-replicas updated-replicas.\<close>

definition completeRollingUpdate :: "statefulSet \<Rightarrow> statefulSetStatus \<Rightarrow> statefulSetStatus" where
  "completeRollingUpdate ss status =
     (if specUpdateStrategyType ss = RollingUpdateStatefulSetStrategyType \<and>
         partitionOf ss = 0 \<and>
         Replicas status = specReplicas ss \<and>
         UpdatedReplicas status = specReplicas ss \<and>
         ReadyReplicas status = specReplicas ss \<and>
         CurrentRevision status \<noteq> UpdateRevision status
      then status\<lparr>CurrentRevision := UpdateRevision status,
                  CurrentReplicas := UpdatedReplicas status\<rparr>
      else status)"

text \<open>Modelled from the spec (section 4.5): a field-wise comparison against the
  last-published status.\<close>

definition inconsistentStatus :: "statefulSet \<Rightarrow> statefulSetStatus \<Rightarrow> bool" where
  "inconsistentStatus ss status = (status \<noteq> setStatus ss)"

text \<open>Lines 446-465. The second component is the status as \<^verbatim>\<open>completeRollingUpdate\<close> left it
  behind the pointer.\<close>

definition updateStatefulSetStatus ::
  "platform \<Rightarrow> statefulSet \<Rightarrow> statefulSetStatus \<Rightarrow> world \<Rightarrow> (outcome \<times> statefulSetStatus) \<times> world" where
  "updateStatefulSetStatus env ss status0 w =
     (let status = completeRollingUpdate ss status0
      in if \<not> inconsistentStatus ss status then ((NilError, status), w)
         else (case invoke env (UpdateStatefulSetStatus status) w of
                 (Some e, w') \<Rightarrow> ((Error e, status), w')
               | (None, w') \<Rightarrow> ((NilError, status), w')))"

section \<open>UpdateStatefulSet\<close>

text \<open>Lines 117-123. Modelled from the spec: \<^verbatim>\<open>list(set, selector)\<close> returns all revisions
  owned by or matching the set, here the store.\<close>

definition ListRevisions ::
  "platform \<Rightarrow> statefulSet \<Rightarrow> world \<Rightarrow> (error + controllerRevision list) \<times> world" where
  "ListRevisions env ss w =
     (case specSelectorError ss of
        Some e \<Rightarrow> (Inl e, w)
      | None \<Rightarrow>
         (case invoke env ListControllerRevisions w of
            (Some e, w') \<Rightarrow> (Inl e, w')
          | (None, w') \<Rightarrow> (Inr (store w), w')))"

text \<open>Lines 72-115.\<close>

definition UpdateStatefulSet :: "platform \<Rightarrow> statefulSet \<Rightarrow> pod list \<Rightarrow> world \<Rightarrow> outcome \<times> world" where
  "UpdateStatefulSet env ss pods w =
     (case ListRevisions env ss w of
        (Inl e, w1) \<Rightarrow> (Error e, w1)
      | (Inr listed, w1) \<Rightarrow>
         (let revisions = SortControllerRevisions listed
          in case getStatefulSetRevisions env ss revisions w1 of
               ((Inl stopped, collisionCount), w2) \<Rightarrow> (stopped, w2)
             | ((Inr (currentRevision, updateRevision), collisionCount), w2) \<Rightarrow>
                 (case updateStatefulSet env ss currentRevision updateRevision collisionCount pods w2 of
                    ((returned, NilError), w3) \<Rightarrow>
                      (case returned of
                         None \<Rightarrow> (Panic, w3)
                       | Some status \<Rightarrow>
                          (case updateStatefulSetStatus env ss status w3 of
                             ((NilError, status'), w4) \<Rightarrow>
                               truncateHistory env ss pods revisions currentRevision updateRevision w4
                           | ((stopped, status'), w4) \<Rightarrow> (stopped, w4)))
                  | ((returned, stopped), w3) \<Rightarrow> (stopped, w3))))"

section \<open>Reading the calls of a pass\<close>

text \<open>The calls made between two worlds, and two views of a list of calls: the Pods a
  given call site of \<^verbatim>\<open>DeleteStatefulPod\<close> was called with, and the published statuses.\<close>

definition issued :: "world \<Rightarrow> world \<Rightarrow> call list" where
  "issued w w' = drop (length (trace w)) (trace w')"

definition deletedAt :: "deleteSite \<Rightarrow> call \<Rightarrow> pod list" where
  "deletedAt site c =
     (case c of DeleteStatefulPod site' p \<Rightarrow> (if site' = site then [p] else []) | _ \<Rightarrow> [])"

definition deletedFor :: "deleteSite \<Rightarrow> call list \<Rightarrow> pod list" where
  "deletedFor site calls = concat (map (deletedAt site) calls)"

definition publishedBy :: "call \<Rightarrow> statefulSetStatus list" where
  "publishedBy c = (case c of UpdateStatefulSetStatus status \<Rightarrow> [status] | _ \<Rightarrow> [])"

definition published :: "call list \<Rightarrow> statefulSetStatus list" where
  "published calls = concat (map publishedBy calls)"

definition createdPods :: "call list \<Rightarrow> pod list" where
  "createdPods calls = concat (map (\<lambda>c. case c of CreateStatefulPod p \<Rightarrow> [p] | _ \<Rightarrow> []) calls)"


text \<open>The calls of the second loop of \<^verbatim>\<open>updateStatefulSet\<close>: an event, the delete of a
  failed Pod, the create or the update of a Pod.\<close>

definition repairCall :: "call \<Rightarrow> bool" where
  "repairCall c =
     (case c of Eventf reason p \<Rightarrow> True
      | DeleteStatefulPod site p \<Rightarrow> site = ForRecreate
      | CreateStatefulPod p \<Rightarrow> True
      | UpdateStatefulPod updateSet p \<Rightarrow> True
      | _ \<Rightarrow> False)"

section \<open>Scenarios\<close>

text \<open>A platform on which every call succeeds and no name collides, and one on which
  \<^verbatim>\<open>DeleteStatefulPod\<close> fails for the Pod at ordinal \<open>i\<close>.\<close>

definition quiet :: platform where
  "quiet = \<lparr>failure = (\<lambda>calls c. None), collisions = (\<lambda>calls c. 0),
            HashControllerRevision = (\<lambda>template collisionCount. template)\<rparr>"

definition refusingDeleteAt :: "int \<Rightarrow> platform" where
  "refusingDeleteAt i =
     quiet\<lparr>failure := (\<lambda>calls c. case c of
                            DeleteStatefulPod site p \<Rightarrow>
                              (if getOrdinal p = i then Some (ApiError ''timeout'') else None)
                          | _ \<Rightarrow> None)\<rparr>"

definition emptyWorld :: world where
  "emptyWorld = \<lparr>store = [], trace = []\<rparr>"

text \<open>Revision R1 records template A, revision R2 template B, and so on.\<close>

definition revisionA :: controllerRevision where
  "revisionA = \<lparr>revName = ''web-a'', revRevision = 1, revCreated = 0, revData = ''a''\<rparr>"

definition revisionB :: controllerRevision where
  "revisionB = \<lparr>revName = ''web-b'', revRevision = 2, revCreated = 0, revData = ''b''\<rparr>"



text \<open>A healthy Pod of the set \<^verbatim>\<open>web\<close> at ordinal \<open>i\<close> with revision label \<open>r\<close>.\<close>

definition runningPod :: "int \<Rightarrow> string \<Rightarrow> pod" where
  "runningPod i r =
     \<lparr>podOrdinal = i, podRevision = r, podPhase = Some PodRunning, podReady = True,
      podDeletionTimestamp = None, podIdentity = (''web'', i), podStorage = (''web'', i),
      podTemplate = ''a''\<rparr>"

definition failedPod :: "int \<Rightarrow> string \<Rightarrow> pod" where
  "failedPod i r = (runningPod i r)\<lparr>podPhase := Some PodFailed, podReady := False\<rparr>"

definition publishedStatus :: "int \<Rightarrow> string \<Rightarrow> statefulSetStatus" where
  "publishedStatus n r =
     \<lparr>ObservedGeneration = 1, Replicas = n, ReadyReplicas = n, CurrentReplicas = n,
      UpdatedReplicas = n, CurrentRevision = r, UpdateRevision = r, CollisionCount = Some 0\<rparr>"

text \<open>The set \<^verbatim>\<open>web\<close> with \<open>n\<close> replicas, the given template, the rolling update strategy
  with partition \<open>p\<close>, history limit 10, and a last published status of three replicas at
  revision R1.\<close>

definition webSet :: "int \<Rightarrow> string \<Rightarrow> int \<Rightarrow> statefulSet" where
  "webSet n template p =
     \<lparr>setName = ''web'', setGeneration = 2, setDeletionTimestamp = None,
      specSelectorError = None, specReplicas = n, specTemplate = template,
      specUpdateStrategyType = RollingUpdateStatefulSetStrategyType,
      specRollingUpdate = Some p, specRevisionHistoryLimit = 10,
      setStatus = publishedStatus 3 ''web-a''\<rparr>"

section \<open>Facts about the calls\<close>

declare rollingUpdate.simps [simp del] scaleDown.simps [simp del] missingPods.simps [simp del]

lemma invoke_world:
  "invoke env c w = (r, w') \<Longrightarrow>
     trace w' = trace w @ [c] \<and> r = failure env (trace w) c \<and>
     store w' = (if r = None then storeEffect c (store w) else store w)"
  by (auto simp: invoke_def split: option.splits)

lemma deletedFor_append [simp]:
  "deletedFor site (xs @ ys) = deletedFor site xs @ deletedFor site ys"
  by (simp add: deletedFor_def)

lemma deletedFor_Nil [simp]: "deletedFor site [] = []"
  by (simp add: deletedFor_def)

lemma deletedFor_deletes [simp]:
  "deletedFor site (map (DeleteStatefulPod site') ds) = (if site' = site then ds else [])"
  by (induction ds) (auto simp: deletedFor_def deletedAt_def)

lemma issued_append [simp]: "trace w' = trace w @ cs \<Longrightarrow> issued w w' = cs"
  by (simp add: issued_def)

lemma published_append [simp]: "published (xs @ ys) = published xs @ published ys"
  by (simp add: published_def)

lemma published_Nil [simp]: "published [] = []"
  by (simp add: published_def)

lemma published_deletes [simp]: "published (map (DeleteStatefulPod site) ds) = []"
  by (induction ds) (auto simp: published_def publishedBy_def)

section \<open>The rolling update loop\<close>

lemma position_weaken:
  "\<exists>i. (updateMin::int) \<le> i \<and> i \<le> target - 1 \<and> index pods i = Some p \<Longrightarrow>
   \<exists>i. updateMin \<le> i \<and> i \<le> target \<and> index pods i = Some p"
proof -
  assume "\<exists>i. updateMin \<le> i \<and> i \<le> target - 1 \<and> index pods i = Some p"
  then obtain i where "updateMin \<le> i" "i \<le> target - 1" "index pods i = Some p" by blast
  then have "updateMin \<le> i \<and> i \<le> target \<and> index pods i = Some p" by simp
  then show ?thesis by blast
qed

lemma rollingUpdate_calls:
  "rollingUpdate env ur pods updateMin target st w = (out, st', w') \<Longrightarrow>
   \<exists>ds. trace w' = trace w @ map (DeleteStatefulPod ForUpdate) ds \<and> store w' = store w \<and>
        st' = st\<lparr>CurrentReplicas := CurrentReplicas st - int (length ds)\<rparr> \<and>
        (\<forall>p\<in>set ds. \<exists>i. updateMin \<le> i \<and> i \<le> target \<and> index pods i = Some p)"
proof (induction env ur pods updateMin target st w arbitrary: out st' w' rule: rollingUpdate.induct)
  case (1 env ur pods updateMin target st w)
  show ?case
  proof (cases "target \<ge> updateMin")
    case False
    with "1.prems" show ?thesis
      by (simp add: rollingUpdate.simps[of env ur pods updateMin target])
  next
    case ge: True
    show ?thesis
    proof (cases "index pods target")
      case None
      with ge "1.prems" show ?thesis
        by (simp add: rollingUpdate.simps[of env ur pods updateMin target])
    next
      case (Some p)
      show ?thesis
      proof (cases "getPodRevision p \<noteq> revName ur \<and> \<not> isTerminating p")
        case False
        with ge Some "1.prems" have
          "rollingUpdate env ur pods updateMin (target - 1) st w = (out, st', w')"
          by (simp add: rollingUpdate.simps[of env ur pods updateMin target])
        from "1.IH"(2)[OF ge Some False this] obtain ds where
          "trace w' = trace w @ map (DeleteStatefulPod ForUpdate) ds" "store w' = store w"
          "st' = st\<lparr>CurrentReplicas := CurrentReplicas st - int (length ds)\<rparr>"
          "\<forall>p\<in>set ds. \<exists>i. updateMin \<le> i \<and> i \<le> target - 1 \<and> index pods i = Some p"
          by blast
        then show ?thesis
          by (intro exI[of _ ds]) (auto intro: position_weaken)
      next
        case True
        obtain r w1 where inv: "invoke env (DeleteStatefulPod ForUpdate p) w = (r, w1)"
          by (cases "invoke env (DeleteStatefulPod ForUpdate p) w")
        note iw = invoke_world[OF inv]
        show ?thesis
        proof (cases r)
          case (Some e)
          with ge \<open>index pods target = Some p\<close> True inv "1.prems" have
            "out = Error e" "st' = st\<lparr>CurrentReplicas := CurrentReplicas st - 1\<rparr>" "w' = w1"
            by (simp_all add: rollingUpdate.simps[of env ur pods updateMin target])
          with iw Some ge \<open>index pods target = Some p\<close> show ?thesis
            by (intro exI[of _ "[p]"]) auto
        next
          case None
          with ge \<open>index pods target = Some p\<close> True inv "1.prems" have rec:
            "rollingUpdate env ur pods updateMin (target - 1)
               (st\<lparr>CurrentReplicas := CurrentReplicas st - 1\<rparr>) w1 = (out, st', w')"
            by (simp add: rollingUpdate.simps[of env ur pods updateMin target])
          from "1.IH"(1)[OF ge \<open>index pods target = Some p\<close> True inv[symmetric] None rec]
          obtain ds where ds:
            "trace w' = trace w1 @ map (DeleteStatefulPod ForUpdate) ds" "store w' = store w1"
            "st' = st\<lparr>CurrentReplicas := CurrentReplicas st - 1\<rparr>
                     \<lparr>CurrentReplicas := CurrentReplicas (st\<lparr>CurrentReplicas := CurrentReplicas st - 1\<rparr>) - int (length ds)\<rparr>"
            "\<forall>p\<in>set ds. \<exists>i. updateMin \<le> i \<and> i \<le> target - 1 \<and> index pods i = Some p"
            by blast
          with iw None ge \<open>index pods target = Some p\<close> show ?thesis
            by (intro exI[of _ "p # ds"]) (auto intro: position_weaken)
        qed
      qed
    qed
  qed
qed

lemma rollingUpdate_deletes:
  "rollingUpdate env ur pods updateMin target st w = (NilError, st', w') \<Longrightarrow>
   0 \<le> updateMin \<Longrightarrow> target < int (length pods) \<Longrightarrow>
   issued w w' =
     map (DeleteStatefulPod ForUpdate)
       (filter (\<lambda>p. getPodRevision p \<noteq> revName ur \<and> \<not> isTerminating p)
          (rev (drop (nat updateMin) (take (nat (target + 1)) pods))))"
proof (induction env ur pods updateMin target st w arbitrary: st' w' rule: rollingUpdate.induct)
  case (1 env ur pods updateMin target st w)
  let ?cond = "\<lambda>p. getPodRevision p \<noteq> revName ur \<and> \<not> isTerminating p"
  show ?case
  proof (cases "target \<ge> updateMin")
    case False
    with "1.prems" show ?thesis
      by (simp add: rollingUpdate.simps[of env ur pods updateMin target] issued_def)
  next
    case ge: True
    with "1.prems" have inrange: "0 \<le> target" "nat target < length pods" by auto
    then have idx: "index pods target = Some (pods ! nat target)"
      by (simp add: index_def)
    let ?p = "pods ! nat target"
    have "take (nat (target + 1)) pods = take (nat target) pods @ [?p]"
      using inrange by (simp add: nat_add_distrib take_Suc_conv_app_nth)
    moreover have "nat updateMin \<le> length (take (nat target) pods)"
      using ge inrange "1.prems" by simp
    ultimately have split:
      "rev (drop (nat updateMin) (take (nat (target + 1)) pods)) =
         ?p # rev (drop (nat updateMin) (take (nat (target - 1 + 1)) pods))"
      by simp
    have below: "target - 1 < int (length pods)" using inrange by simp
    show ?thesis
    proof (cases "?cond ?p")
      case False
      with ge idx "1.prems" have
        "rollingUpdate env ur pods updateMin (target - 1) st w = (NilError, st', w')"
        by (simp add: rollingUpdate.simps[of env ur pods updateMin target])
      from "1.IH"(2)[OF ge idx False this "1.prems"(2) below] False show ?thesis
        by (simp only: split) simp
    next
      case True
      obtain r w1 where inv: "invoke env (DeleteStatefulPod ForUpdate ?p) w = (r, w1)"
        by (cases "invoke env (DeleteStatefulPod ForUpdate ?p) w")
      note iw = invoke_world[OF inv]
      from ge idx True inv "1.prems" have r: "r = None"
        by (cases r) (simp_all add: rollingUpdate.simps[of env ur pods updateMin target])
      with ge idx True inv "1.prems" have rec:
        "rollingUpdate env ur pods updateMin (target - 1)
           (st\<lparr>CurrentReplicas := CurrentReplicas st - 1\<rparr>) w1 = (NilError, st', w')"
        by (simp add: rollingUpdate.simps[of env ur pods updateMin target])
      from rollingUpdate_calls[OF rec] obtain ds where
        ds: "trace w' = trace w1 @ map (DeleteStatefulPod ForUpdate) ds" by blast
      from "1.IH"(1)[OF ge idx True inv[symmetric] r rec "1.prems"(2) below]
      have "issued w1 w' =
         map (DeleteStatefulPod ForUpdate)
           (filter ?cond (rev (drop (nat updateMin) (take (nat (target - 1 + 1)) pods))))" .
      with ds have "map (DeleteStatefulPod ForUpdate) ds =
         map (DeleteStatefulPod ForUpdate)
           (filter ?cond (rev (drop (nat updateMin) (take (nat (target - 1 + 1)) pods))))"
        by simp
      with ds iw True show ?thesis
        by (simp only: split) (simp add: issued_def)
    qed
  qed
qed

lemma rollingUpdate_error:
  "rollingUpdate env ur pods updateMin target st w = (Error e, st', w') \<Longrightarrow>
   deletedFor ForUpdate (issued w w') \<noteq> []"
proof (induction env ur pods updateMin target st w arbitrary: st' w' rule: rollingUpdate.induct)
  case (1 env ur pods updateMin target st w)
  note unfold = rollingUpdate.simps[of env ur pods updateMin target]
  from "1.prems" have ge: "target \<ge> updateMin"
    by (auto simp: unfold split: if_splits)
  from "1.prems" ge obtain p where idx: "index pods target = Some p"
    by (cases "index pods target") (auto simp: unfold)
  show ?case
  proof (cases "getPodRevision p \<noteq> revName ur \<and> \<not> isTerminating p")
    case False
    with ge idx "1.prems" have
      "rollingUpdate env ur pods updateMin (target - 1) st w = (Error e, st', w')"
      by (simp add: unfold)
    from "1.IH"(2)[OF ge idx False this] show ?thesis .
  next
    case True
    obtain r w1 where inv: "invoke env (DeleteStatefulPod ForUpdate p) w = (r, w1)"
      by (cases "invoke env (DeleteStatefulPod ForUpdate p) w")
    note iw = invoke_world[OF inv]
    show ?thesis
    proof (cases r)
      case (Some e')
      with ge idx True inv "1.prems" have "w' = w1" by (simp add: unfold)
      with iw show ?thesis by (simp add: deletedFor_def deletedAt_def)
    next
      case None
      with ge idx True inv "1.prems" have rec:
        "rollingUpdate env ur pods updateMin (target - 1)
           (st\<lparr>CurrentReplicas := CurrentReplicas st - 1\<rparr>) w1 = (Error e, st', w')"
        by (simp add: unfold)
      from rollingUpdate_calls[OF rec] obtain ds where
        "trace w' = trace w1 @ map (DeleteStatefulPod ForUpdate) ds" by blast
      with iw show ?thesis by (simp add: deletedFor_def deletedAt_def)
    qed
  qed
qed

section \<open>The scale down loop\<close>

lemma forgetRevision_fields [simp]:
  "Replicas (forgetRevision cr ur p st) = Replicas st"
  "ReadyReplicas (forgetRevision cr ur p st) = ReadyReplicas st"
  "ObservedGeneration (forgetRevision cr ur p st) = ObservedGeneration st"
  "CurrentRevision (forgetRevision cr ur p st) = CurrentRevision st"
  "UpdateRevision (forgetRevision cr ur p st) = UpdateRevision st"
  "CollisionCount (forgetRevision cr ur p st) = CollisionCount st"
  "CurrentReplicas (forgetRevision cr ur p st) =
     CurrentReplicas st - (if getPodRevision p = revName cr then 1 else 0)"
  "UpdatedReplicas (forgetRevision cr ur p st) =
     UpdatedReplicas st - (if getPodRevision p = revName ur then 1 else 0)"
  by (simp_all add: forgetRevision_def Let_def)

lemma scaleDown_calls:
  "scaleDown env cr ur pods target n st w = (out, st', w') \<Longrightarrow>
   \<exists>ds. trace w' = trace w @ map (DeleteStatefulPod ForScaleDown) ds \<and> store w' = store w \<and>
        Replicas st' = Replicas st \<and> ReadyReplicas st' = ReadyReplicas st \<and>
        (out = NilError \<longrightarrow>
           CurrentReplicas st' =
             CurrentReplicas st - int (length (filter (\<lambda>p. getPodRevision p = revName cr) ds)) \<and>
           UpdatedReplicas st' =
             UpdatedReplicas st - int (length (filter (\<lambda>p. getPodRevision p = revName ur) ds)))"
proof (induction env cr ur pods target n st w arbitrary: out st' w' rule: scaleDown.induct)
  case (1 env cr ur pods target n st w)
  note unfold = scaleDown.simps[of env cr ur pods target n]
  show ?case
  proof (cases "target \<ge> 0 \<and> n > 0")
    case False
    with "1.prems" show ?thesis by (auto simp: unfold)
  next
    case go: True
    show ?thesis
    proof (cases "index pods target")
      case None
      with go "1.prems" show ?thesis by (auto simp: unfold)
    next
      case (Some p)
      show ?thesis
      proof (cases "isTerminating p")
        case True
        with go Some "1.prems" have
          "scaleDown env cr ur pods (target - 1) (n - 1) st w = (out, st', w')"
          by (simp add: unfold)
        from "1.IH"(1)[OF go Some True this] show ?thesis .
      next
        case False
        obtain r w1 where inv: "invoke env (DeleteStatefulPod ForScaleDown p) w = (r, w1)"
          by (cases "invoke env (DeleteStatefulPod ForScaleDown p) w")
        note iw = invoke_world[OF inv]
        show ?thesis
        proof (cases r)
          case (Some e)
          with go \<open>index pods target = Some p\<close> False inv "1.prems" have
            "out = Error e" "st' = st" "w' = w1"
            by (simp_all add: unfold)
          with iw Some show ?thesis
            by (intro exI[of _ "[p]"]) auto
        next
          case None
          with go \<open>index pods target = Some p\<close> False inv "1.prems" have rec:
            "scaleDown env cr ur pods (target - 1) (n - 1) (forgetRevision cr ur p st) w1 =
               (out, st', w')"
            by (simp add: unfold)
          from "1.IH"(2)[OF go \<open>index pods target = Some p\<close> False inv[symmetric] None rec]
          obtain ds where
            "trace w' = trace w1 @ map (DeleteStatefulPod ForScaleDown) ds" "store w' = store w1"
            "Replicas st' = Replicas st" "ReadyReplicas st' = ReadyReplicas st"
            "out = NilError \<longrightarrow>
               CurrentReplicas st' = CurrentReplicas (forgetRevision cr ur p st) -
                 int (length (filter (\<lambda>p. getPodRevision p = revName cr) ds)) \<and>
               UpdatedReplicas st' = UpdatedReplicas (forgetRevision cr ur p st) -
                 int (length (filter (\<lambda>p. getPodRevision p = revName ur) ds))"
            by auto
          with iw None show ?thesis
            by (intro exI[of _ "p # ds"]) auto
        qed
      qed
    qed
  qed
qed

section \<open>The classifier\<close>

lemma gatherStatus_unhealthy:
  "snd (gatherStatus cr ur pods acc) = snd acc @ filter (\<lambda>p. \<not> isHealthy p) pods \<and>
   ObservedGeneration (fst (gatherStatus cr ur pods acc)) = ObservedGeneration (fst acc)"
  by (induction pods arbitrary: acc) (auto simp: countPod_def Let_def)

lemma missingPods_replicate:
  "missingPods cs us cr ur st i n unhealthy =
     unhealthy @ replicate (nat (n - i))
       (newVersionedStatefulSetPod cs us (revName cr) (revName ur) (ObservedGeneration st))"
proof (induction cs us cr ur st i n unhealthy rule: missingPods.induct)
  case (1 cs us cr ur st i n unhealthy)
  show ?case
  proof (cases "i < n")
    case False
    then show ?thesis by (simp add: missingPods.simps[of cs us cr ur st i n])
  next
    case True
    then have "nat (n - i) = Suc (nat (n - (i + 1)))" by simp
    with True "1.IH" show ?thesis
      by (simp add: missingPods.simps[of cs us cr ur st i n] replicate_append_same)
  qed
qed

lemma newVersionedStatefulSetPod_ordinal [simp]:
  "getOrdinal (newVersionedStatefulSetPod cs us c u i) = i"
  by (simp add: newVersionedStatefulSetPod_def newStatefulSetPod_def getOrdinal_def)

text \<open>The unhealthy list of the classifier: the observed Pods that are not healthy, then
  one new Pod for every missing replica, each made for the ordinal
  \<^verbatim>\<open>int(status.ObservedGeneration)\<close>, the generation of the set.\<close>

lemma classify_placeholders_share_the_generation:
  "snd (classify ss cs us cr ur cc pods) =
     filter (\<lambda>p. \<not> isHealthy p) pods @
     replicate (nat (specReplicas ss - int (length pods)))
       (newVersionedStatefulSetPod cs us (revName cr) (revName ur) (setGeneration ss)) \<and>
   getOrdinal (newVersionedStatefulSetPod cs us (revName cr) (revName ur) (setGeneration ss)) =
     setGeneration ss"
  by (simp add: classify_def Let_def missingPods_replicate gatherStatus_unhealthy initialStatus_def)

section \<open>The repair of unhealthy Pods\<close>

text \<open>A call of the second loop: an event, the delete of a failed Pod, a create or an update
  of a Pod.\<close>

lemma createOrUpdate_calls:
  "createOrUpdate env ss us cr ur p st w = (out, st', w') \<Longrightarrow>
   \<exists>cs. trace w' = trace w @ cs \<and> store w' = store w \<and> list_all repairCall cs"
  by (auto simp: createOrUpdate_def repairCall_def split: if_splits prod.splits option.splits
           dest!: invoke_world)

lemma repairPod_calls:
  "repairPod env ss cs us cr ur p st w = (out, st', w') \<Longrightarrow>
   \<exists>calls. trace w' = trace w @ calls \<and> store w' = store w \<and> list_all repairCall calls"
proof (cases "isFailed p")
  case False
  assume "repairPod env ss cs us cr ur p st w = (out, st', w')"
  with False show ?thesis
    by (simp add: repairPod_def createOrUpdate_calls)
next
  case True
  assume run: "repairPod env ss cs us cr ur p st w = (out, st', w')"
  let ?w1 = "w\<lparr>trace := trace w @ [Eventf ''RecreatingFailedPod'' p]\<rparr>"
  obtain r w2 where inv: "invoke env (DeleteStatefulPod ForRecreate p) ?w1 = (r, w2)"
    by (cases "invoke env (DeleteStatefulPod ForRecreate p) ?w1")
  note iw = invoke_world[OF inv]
  show ?thesis
  proof (cases r)
    case (Some e)
    with run True inv have "w' = w2" by (simp add: repairPod_def Let_def)
    with iw Some show ?thesis
      by (intro exI[of _ "[Eventf ''RecreatingFailedPod'' p, DeleteStatefulPod ForRecreate p]"])
         (simp add: repairCall_def)
  next
    case None
    with run True inv obtain q st1 where
      "createOrUpdate env ss us cr ur q st1 w2 = (out, st', w')"
      by (simp add: repairPod_def Let_def)
    from createOrUpdate_calls[OF this] obtain calls where
      "trace w' = trace w2 @ calls" "store w' = store w2" "list_all repairCall calls" by blast
    with iw None show ?thesis
      by (intro exI[of _ "[Eventf ''RecreatingFailedPod'' p, DeleteStatefulPod ForRecreate p] @ calls"])
         (simp add: repairCall_def)
  qed
qed

lemma repairUnhealthy_calls:
  "repairUnhealthy env ss cs us cr ur unhealthy st w = (out, st', w') \<Longrightarrow>
   \<exists>calls. trace w' = trace w @ calls \<and> store w' = store w \<and> list_all repairCall calls"
proof (induction unhealthy arbitrary: st w)
  case Nil
  then show ?case by simp
next
  case (Cons p rest)
  obtain o1 st1 w1 where step: "repairPod env ss cs us cr ur p st w = (o1, st1, w1)"
    by (cases "repairPod env ss cs us cr ur p st w")
  from repairPod_calls[OF step] obtain c1 where
    c1: "trace w1 = trace w @ c1" "store w1 = store w" "list_all repairCall c1" by blast
  show ?case
  proof (cases "o1 = NilError")
    case True
    with Cons.prems step have
      "repairUnhealthy env ss cs us cr ur rest st1 w1 = (out, st', w')" by simp
    from Cons.IH[OF this] obtain c2 where
      "trace w' = trace w1 @ c2" "store w' = store w1" "list_all repairCall c2" by blast
    with c1 show ?thesis by (intro exI[of _ "c1 @ c2"]) simp
  next
    case False
    with Cons.prems step have "w' = w1" by (cases o1) auto
    with c1 show ?thesis by blast
  qed
qed


lemma repairPod_failed:
  assumes "isFailed p"
    and "failure env (trace w @ [Eventf ''RecreatingFailedPod'' p])
           (DeleteStatefulPod ForRecreate p) = None"
    and "repairPod env ss cs us cr ur p st w = (out, st', w')"
  shows "trace w' = trace w @ [Eventf ''RecreatingFailedPod'' p, DeleteStatefulPod ForRecreate p,
           CreateStatefulPod (newVersionedStatefulSetPod cs us (revName cr) (revName ur) (getOrdinal p))]"
proof -
  let ?q = "newVersionedStatefulSetPod cs us (revName cr) (revName ur) (getOrdinal p)"
  have fresh: "\<not> isCreated ?q"
    by (simp add: newVersionedStatefulSetPod_def newStatefulSetPod_def isCreated_def)
  from assms fresh show ?thesis
    by (auto simp: repairPod_def createOrUpdate_def invoke_def Let_def
             split: option.splits prod.splits)
qed

lemma repairUnhealthy_Cons_extends:
  assumes "repairPod env ss cs us cr ur p st w = (o1, st1, w1)"
    and "repairUnhealthy env ss cs us cr ur (p # rest) st w = (out, st', w')"
  shows "\<exists>more. trace w' = trace w1 @ more"
proof (cases "o1 = NilError")
  case True
  with assms have "repairUnhealthy env ss cs us cr ur rest st1 w1 = (out, st', w')" by simp
  from repairUnhealthy_calls[OF this] show ?thesis by blast
next
  case False
  with assms have "w' = w1" by (cases o1) auto
  then show ?thesis by simp
qed

section \<open>The calls of updateStatefulSet\<close>

lemma scaleAndUpdate_calls:
  assumes "scaleAndUpdate env ss cr ur pods st w = (out, st', w')"
  shows "\<exists>gone ds. trace w' = trace w @ map (DeleteStatefulPod ForScaleDown) gone @
                      map (DeleteStatefulPod ForUpdate) ds \<and> store w' = store w \<and>
           (\<forall>p\<in>set ds. \<exists>i. partitionOf ss \<le> i \<and> i \<le> int (length pods) - 1 \<and> index pods i = Some p)"
proof -
  obtain o1 st1 w1 where down:
    "scaleDown env cr ur pods (int (length pods) - 1) (int (length pods) - specReplicas ss) st w =
       (o1, st1, w1)"
    by (cases "scaleDown env cr ur pods (int (length pods) - 1) (int (length pods) - specReplicas ss) st w")
  from scaleDown_calls[OF down] obtain gone where
    gone: "trace w1 = trace w @ map (DeleteStatefulPod ForScaleDown) gone" "store w1 = store w"
    by blast
  show ?thesis
  proof (cases "o1 = NilError \<and> specUpdateStrategyType ss \<noteq> OnDeleteStatefulSetStrategyType")
    case False
    with assms down have "w' = w1"
      by (cases o1) (auto simp: scaleAndUpdate_def split: if_splits)
    with gone show ?thesis
      by (intro exI[of _ gone] exI[of _ "[]"]) simp
  next
    case True
    with assms down have
      "rollingUpdate env ur pods (partitionOf ss) (int (length pods) - 1) st1 w1 = (out, st', w')"
      by (simp add: scaleAndUpdate_def partitionOf_def)
    from rollingUpdate_calls[OF this] obtain ds where
      "trace w' = trace w1 @ map (DeleteStatefulPod ForUpdate) ds" "store w' = store w1"
      "\<forall>p\<in>set ds. \<exists>i. partitionOf ss \<le> i \<and> i \<le> int (length pods) - 1 \<and> index pods i = Some p"
      by blast
    with gone show ?thesis
      by (intro exI[of _ gone] exI[of _ ds]) simp
  qed
qed


lemma updateStatefulSet_extends_repair:
  assumes "setDeletionTimestamp ss = None"
    and "ApplyRevision ss cr = Inr cs" and "ApplyRevision ss ur = Inr us"
    and "repairUnhealthy env ss cs us cr ur (snd (classify ss cs us cr ur cc pods))
           (fst (classify ss cs us cr ur cc pods)) w = (o1, st1, w1)"
    and "updateStatefulSet env ss cr ur cc pods w = (res, w')"
  shows "\<exists>more. trace w' = trace w1 @ more"
proof (cases "o1 = NilError")
  case False
  with assms have "w' = w1"
    by (cases o1) (auto simp: updateStatefulSet_def Let_def)
  then show ?thesis by simp
next
  case True
  obtain o2 st2 w2 where rest: "scaleAndUpdate env ss cr ur pods st1 w1 = (o2, st2, w2)"
    by (cases "scaleAndUpdate env ss cr ur pods st1 w1")
  with assms True have "w' = w2"
    by (cases o2) (auto simp: updateStatefulSet_def Let_def)
  with scaleAndUpdate_calls[OF rest] show ?thesis by auto
qed


section \<open>The revisions\<close>

lemma length_insertRevision [simp]: "length (insertRevision r xs) = Suc (length xs)"
  by (induction xs) auto

lemma length_SortControllerRevisions [simp]:
  "length (SortControllerRevisions revisions) = length revisions"
  by (induction revisions) (auto simp: SortControllerRevisions_def)

lemma index_last:
  "xs \<noteq> [] \<Longrightarrow> index xs (int (length xs) - 1) = Some (last xs)"
  by (simp add: index_def last_conv_nth nat_diff_distrib')

lemma chooseUpdateRevision_in_range:
  assumes "revisionCount = int (length revisions)"
  shows "fst (fst (chooseUpdateRevision env ss revisions revisionCount candidate cc w)) \<noteq> Inl Panic"
proof (cases "FindEqualRevisions revisions candidate = []")
  case True
  then show ?thesis
    by (auto simp: chooseUpdateRevision_def controllerHistory_Create_def Let_def
             split: option.splits)
next
  case False
  then have "revisions \<noteq> []" by (auto simp: FindEqualRevisions_def)
  with assms False show ?thesis
    by (auto simp: chooseUpdateRevision_def controllerHistory_Update_def Let_def index_last
             split: option.splits prod.splits sum.splits)
qed



section \<open>The history\<close>




section \<open>The rolling update: claims C1, C8 and C10\<close>

text \<open>
  Claim C1, on the code. Scenario S3 (three replicas wanted, partition 0, three healthy
  Pods at R1, update revision R2): the pass does not stop after the Pod at ordinal 2; it
  calls \<^verbatim>\<open>DeleteStatefulPod\<close> for the Pods at ordinals 2, 1 and 0, and returns
  \<open>CurrentReplicas = 0\<close>. The second part is the whole of \<^verbatim>\<open>UpdateStatefulSet\<close> from a
  store that holds R1 and a set whose template has changed to B: R2 is created, the
  three Pods are deleted, and that status is published.
\<close>

theorem S3_rolling_update_deletes_all_replicas:
  "updateStatefulSet quiet (webSet 3 ''b'' 0) revisionA revisionB 0
     [runningPod 0 ''web-a'', runningPod 1 ''web-a'', runningPod 2 ''web-a''] emptyWorld =
   ((Some \<lparr>ObservedGeneration = 2, Replicas = 3, ReadyReplicas = 3, CurrentReplicas = 0,
            UpdatedReplicas = 0, CurrentRevision = ''web-a'', UpdateRevision = ''web-b'',
            CollisionCount = Some 0\<rparr>, NilError),
    \<lparr>store = [],
     trace = [DeleteStatefulPod ForUpdate (runningPod 2 ''web-a''),
              DeleteStatefulPod ForUpdate (runningPod 1 ''web-a''),
              DeleteStatefulPod ForUpdate (runningPod 0 ''web-a'')]\<rparr>) \<and>
   UpdateStatefulSet quiet (webSet 3 ''b'' 0)
     [runningPod 0 ''web-a'', runningPod 1 ''web-a'', runningPod 2 ''web-a'']
     \<lparr>store = [revisionA], trace = []\<rparr> =
   (NilError,
    \<lparr>store = [revisionA, revisionB],
     trace = [ListControllerRevisions, CreateControllerRevision revisionB,
              DeleteStatefulPod ForUpdate (runningPod 2 ''web-a''),
              DeleteStatefulPod ForUpdate (runningPod 1 ''web-a''),
              DeleteStatefulPod ForUpdate (runningPod 0 ''web-a''),
              UpdateStatefulSetStatus
                \<lparr>ObservedGeneration = 2, Replicas = 3, ReadyReplicas = 3, CurrentReplicas = 0,
                 UpdatedReplicas = 0, CurrentRevision = ''web-a'', UpdateRevision = ''web-b'',
                 CollisionCount = Some 0\<rparr>]\<rparr>)"
  by code_simp





text \<open>
  Claim C10. The rolling update loop (which does not read the current revision at all)
  decrements \<open>CurrentReplicas\<close> once for every delete it issues, also for the delete that
  fails and ends the loop with an error; and when it ends without error it has issued a
  delete for every Pod from the last position down to \<open>updateMin\<close> that is not
  terminating and whose revision label is not the update revision's name.
\<close>

theorem rollingUpdate_counts_before_deleting:
  assumes "rollingUpdate env ur pods updateMin target st w = (out, st', w')"
  shows "CurrentReplicas st' =
           CurrentReplicas st - int (length (deletedFor ForUpdate (issued w w'))) \<and>
         (\<forall>e. out = Error e \<longrightarrow> deletedFor ForUpdate (issued w w') \<noteq> []) \<and>
         (out = NilError \<and> 0 \<le> updateMin \<and> target < int (length pods) \<longrightarrow>
            deletedFor ForUpdate (issued w w') =
              filter (\<lambda>p. getPodRevision p \<noteq> revName ur \<and> \<not> isTerminating p)
                (rev (drop (nat updateMin) (take (nat (target + 1)) pods))))"
proof -
  from rollingUpdate_calls[OF assms] obtain ds where
    "trace w' = trace w @ map (DeleteStatefulPod ForUpdate) ds"
    "st' = st\<lparr>CurrentReplicas := CurrentReplicas st - int (length ds)\<rparr>" by blast
  then have count: "CurrentReplicas st' =
      CurrentReplicas st - int (length (deletedFor ForUpdate (issued w w')))" by simp
  have failed: "deletedFor ForUpdate (issued w w') \<noteq> []" if "out = Error e" for e
    using assms that rollingUpdate_error by blast
  have all: "deletedFor ForUpdate (issued w w') =
      filter (\<lambda>p. getPodRevision p \<noteq> revName ur \<and> \<not> isTerminating p)
        (rev (drop (nat updateMin) (take (nat (target + 1)) pods)))"
    if "out = NilError" "0 \<le> updateMin" "target < int (length pods)"
    using rollingUpdate_deletes[of env ur pods updateMin target st w st' w'] assms that by simp
  from count failed all show ?thesis by blast
qed

text \<open>A Pod whose label is neither the current nor the update revision: whether its delete
  fails or succeeds, the loop leaves \<open>CurrentReplicas = -1\<close>, and so does the whole pass
  when the delete fails.\<close>

theorem rollingUpdate_counts_before_deleting_witness:
  "rollingUpdate (refusingDeleteAt 0) revisionB [runningPod 0 ''web-old''] 0 0
     (initialStatus (webSet 1 ''b'' 0) revisionA revisionB 0) emptyWorld =
     (Error (ApiError ''timeout''),
      (initialStatus (webSet 1 ''b'' 0) revisionA revisionB 0)\<lparr>CurrentReplicas := - 1\<rparr>,
      \<lparr>store = [], trace = [DeleteStatefulPod ForUpdate (runningPod 0 ''web-old'')]\<rparr>) \<and>
   deletedFor ForUpdate (issued emptyWorld
      \<lparr>store = [], trace = [DeleteStatefulPod ForUpdate (runningPod 0 ''web-old'')]\<rparr>) \<noteq> [] \<and>
   rollingUpdate quiet revisionB [runningPod 0 ''web-old'', runningPod 1 ''web-b''] 0 1
     (initialStatus (webSet 2 ''b'' 0) revisionA revisionB 0) emptyWorld =
     (NilError,
      (initialStatus (webSet 2 ''b'' 0) revisionA revisionB 0)\<lparr>CurrentReplicas := - 1\<rparr>,
      \<lparr>store = [], trace = [DeleteStatefulPod ForUpdate (runningPod 0 ''web-old'')]\<rparr>) \<and>
   deletedFor ForUpdate (issued emptyWorld
      \<lparr>store = [], trace = [DeleteStatefulPod ForUpdate (runningPod 0 ''web-old'')]\<rparr>) =
     filter (\<lambda>p. getPodRevision p \<noteq> revName revisionB \<and> \<not> isTerminating p)
       (rev (drop (nat 0) (take (nat (1 + 1)) [runningPod 0 ''web-old'', runningPod 1 ''web-b'']))) \<and>
   updateStatefulSet (refusingDeleteAt 0) (webSet 1 ''b'' 0) revisionA revisionB 0
     [runningPod 0 ''web-old''] emptyWorld =
     ((Some \<lparr>ObservedGeneration = 2, Replicas = 1, ReadyReplicas = 1, CurrentReplicas = - 1,
              UpdatedReplicas = 0, CurrentRevision = ''web-a'', UpdateRevision = ''web-b'',
              CollisionCount = Some 0\<rparr>, Error (ApiError ''timeout'')),
      \<lparr>store = [], trace = [DeleteStatefulPod ForUpdate (runningPod 0 ''web-old'')]\<rparr>)"
proof -
  let ?w' = "\<lparr>store = [], trace = [DeleteStatefulPod ForUpdate (runningPod 0 ''web-old'')]\<rparr>"
  have refused: "rollingUpdate (refusingDeleteAt 0) revisionB [runningPod 0 ''web-old''] 0 0
     (initialStatus (webSet 1 ''b'' 0) revisionA revisionB 0) emptyWorld =
     (Error (ApiError ''timeout''),
      (initialStatus (webSet 1 ''b'' 0) revisionA revisionB 0)\<lparr>CurrentReplicas := - 1\<rparr>, ?w')"
    by code_simp
  have complete: "rollingUpdate quiet revisionB [runningPod 0 ''web-old'', runningPod 1 ''web-b''] 0 1
     (initialStatus (webSet 2 ''b'' 0) revisionA revisionB 0) emptyWorld =
     (NilError,
      (initialStatus (webSet 2 ''b'' 0) revisionA revisionB 0)\<lparr>CurrentReplicas := - 1\<rparr>, ?w')"
    by code_simp
  have pass: "updateStatefulSet (refusingDeleteAt 0) (webSet 1 ''b'' 0) revisionA revisionB 0
     [runningPod 0 ''web-old''] emptyWorld =
     ((Some \<lparr>ObservedGeneration = 2, Replicas = 1, ReadyReplicas = 1, CurrentReplicas = - 1,
              UpdatedReplicas = 0, CurrentRevision = ''web-a'', UpdateRevision = ''web-b'',
              CollisionCount = Some 0\<rparr>, Error (ApiError ''timeout'')), ?w')"
    by code_simp
  from rollingUpdate_counts_before_deleting[OF refused]
  have "deletedFor ForUpdate (issued emptyWorld ?w') \<noteq> []" by blast
  moreover from rollingUpdate_counts_before_deleting[OF complete]
  have "deletedFor ForUpdate (issued emptyWorld ?w') =
     filter (\<lambda>p. getPodRevision p \<noteq> revName revisionB \<and> \<not> isTerminating p)
       (rev (drop (nat 0) (take (nat (1 + 1)) [runningPod 0 ''web-old'', runningPod 1 ''web-b''])))"
    by simp
  ultimately show ?thesis using refused complete pass by blast
qed

section \<open>The scale down: claim C2\<close>




section \<open>Failed and missing Pods: claims C3 and C5\<close>

text \<open>
  Claim C3, as amended. For a single observed Pod in phase Failed, on a set that is not
  being deleted, the pass records the event \<^verbatim>\<open>RecreatingFailedPod\<close>, calls
  \<^verbatim>\<open>DeleteStatefulPod\<close> for the Pod and, when that delete succeeds, goes on in the same
  pass to call \<^verbatim>\<open>CreateStatefulPod\<close> for a new Pod at the same ordinal: these are the
  first three calls of the pass.
\<close>

theorem failed_pod_recreated_in_same_pass:
  assumes "isFailed p" and "setDeletionTimestamp ss = None"
    and "ApplyRevision ss cr = Inr currentSet" and "ApplyRevision ss ur = Inr updateSet"
    and "failure env (trace w @ [Eventf ''RecreatingFailedPod'' p])
           (DeleteStatefulPod ForRecreate p) = None"
  shows "take 3 (issued w (snd (updateStatefulSet env ss cr ur cc [p] w))) =
           [Eventf ''RecreatingFailedPod'' p, DeleteStatefulPod ForRecreate p,
            CreateStatefulPod (newVersionedStatefulSetPod currentSet updateSet
                                 (revName cr) (revName ur) (getOrdinal p))]"
proof -
  let ?cl = "classify ss currentSet updateSet cr ur cc [p]"
  from assms(1) have "\<not> isHealthy p"
    by (simp add: isFailed_def isHealthy_def isRunningAndReady_def)
  then obtain rest where unhealthy: "snd ?cl = p # rest"
    by (simp add: classify_placeholders_share_the_generation)
  obtain res w' where run: "updateStatefulSet env ss cr ur cc [p] w = (res, w')"
    by (cases "updateStatefulSet env ss cr ur cc [p] w")
  obtain o1 st1 w1 where first:
    "repairPod env ss currentSet updateSet cr ur p (fst ?cl) w = (o1, st1, w1)"
    by (cases "repairPod env ss currentSet updateSet cr ur p (fst ?cl) w")
  obtain o2 st2 w2 where rep:
    "repairUnhealthy env ss currentSet updateSet cr ur (snd ?cl) (fst ?cl) w = (o2, st2, w2)"
    by (cases "repairUnhealthy env ss currentSet updateSet cr ur (snd ?cl) (fst ?cl) w")
  from repairPod_failed[OF assms(1) assms(5) first] have three:
    "trace w1 = trace w @ [Eventf ''RecreatingFailedPod'' p, DeleteStatefulPod ForRecreate p,
       CreateStatefulPod (newVersionedStatefulSetPod currentSet updateSet
                            (revName cr) (revName ur) (getOrdinal p))]" .
  from rep have rep':
    "repairUnhealthy env ss currentSet updateSet cr ur (p # rest) (fst ?cl) w = (o2, st2, w2)"
    by (simp only: unhealthy)
  from repairUnhealthy_Cons_extends[OF first rep'] obtain m1 where
    "trace w2 = trace w1 @ m1" by blast
  moreover from updateStatefulSet_extends_repair[OF assms(2,3,4) rep run] obtain m2 where
    "trace w' = trace w2 @ m2" by blast
  ultimately have "trace w' = trace w @ ([Eventf ''RecreatingFailedPod'' p,
       DeleteStatefulPod ForRecreate p,
       CreateStatefulPod (newVersionedStatefulSetPod currentSet updateSet
                            (revName cr) (revName ur) (getOrdinal p))] @ m1 @ m2)"
    using three by simp
  then have "issued w w' = [Eventf ''RecreatingFailedPod'' p,
       DeleteStatefulPod ForRecreate p,
       CreateStatefulPod (newVersionedStatefulSetPod currentSet updateSet
                            (revName cr) (revName ur) (getOrdinal p))] @ m1 @ m2"
    by (rule issued_append)
  with run show ?thesis by simp
qed

text \<open>Scenario S6 (two replicas wanted, one observed Pod, at ordinal 1, in phase Failed):
  the pass that deletes the Pod also creates its replacement at ordinal 1.\<close>

theorem failed_pod_recreated_counterexample:
  "updateStatefulSet quiet (webSet 2 ''a'' 0) revisionA revisionA 0 [failedPod 1 ''web-a'']
     emptyWorld =
   ((Some \<lparr>ObservedGeneration = 2, Replicas = 2, ReadyReplicas = 0, CurrentReplicas = 2,
            UpdatedReplicas = 2, CurrentRevision = ''web-a'', UpdateRevision = ''web-a'',
            CollisionCount = Some 0\<rparr>, NilError),
    \<lparr>store = [],
     trace = [Eventf ''RecreatingFailedPod'' (failedPod 1 ''web-a''),
              DeleteStatefulPod ForRecreate (failedPod 1 ''web-a''),
              CreateStatefulPod (newVersionedStatefulSetPod (webSet 2 ''a'' 0) (webSet 2 ''a'' 0)
                                   ''web-a'' ''web-a'' 1),
              CreateStatefulPod (newVersionedStatefulSetPod (webSet 2 ''a'' 0) (webSet 2 ''a'' 0)
                                   ''web-a'' ''web-a'' 2)]\<rparr>)"
  by code_simp

text \<open>Scenario S6 satisfies the hypotheses.\<close>

theorem failed_pod_recreated_witness:
  "isFailed (failedPod 1 ''web-a'') \<and>
   take 3 (issued emptyWorld (snd (updateStatefulSet quiet (webSet 2 ''a'' 0) revisionA revisionA 0
       [failedPod 1 ''web-a''] emptyWorld))) =
     [Eventf ''RecreatingFailedPod'' (failedPod 1 ''web-a''),
      DeleteStatefulPod ForRecreate (failedPod 1 ''web-a''),
      CreateStatefulPod (newVersionedStatefulSetPod (webSet 2 ''a'' 0) (webSet 2 ''a'' 0)
                           (revName revisionA) (revName revisionA)
                           (getOrdinal (failedPod 1 ''web-a'')))]"
proof -
  have failed: "isFailed (failedPod 1 ''web-a'')" by code_simp
  have alive: "setDeletionTimestamp (webSet 2 ''a'' 0) = None" by code_simp
  have current: "ApplyRevision (webSet 2 ''a'' 0) revisionA = Inr (webSet 2 ''a'' 0)" by code_simp
  have ok: "failure quiet (trace emptyWorld @ [Eventf ''RecreatingFailedPod'' (failedPod 1 ''web-a'')])
              (DeleteStatefulPod ForRecreate (failedPod 1 ''web-a'')) = None"
    by (simp add: quiet_def)
  from failed_pod_recreated_in_same_pass[OF failed alive current current ok, where cc = 0] failed
  show ?thesis by simp
qed

text \<open>
  Claim C5, on the code. No Pod observed, three replicas wanted, generation 2: the three
  new Pods of the classifier all have ordinal 2, not the ordinals 0, 1 and 2, and the
  pass asks three times for the creation of the same Pod.
\<close>

theorem placeholders_at_generation_not_ordinal:
  "map getOrdinal (snd (classify (webSet 3 ''a'' 0) (webSet 3 ''a'' 0) (webSet 3 ''a'' 0)
       revisionA revisionA 0 [])) = [2, 2, 2] \<and>
   createdPods (trace (snd (updateStatefulSet quiet (webSet 3 ''a'' 0) revisionA revisionA 0 []
       emptyWorld))) =
     [newVersionedStatefulSetPod (webSet 3 ''a'' 0) (webSet 3 ''a'' 0) ''web-a'' ''web-a'' 2,
      newVersionedStatefulSetPod (webSet 3 ''a'' 0) (webSet 3 ''a'' 0) ''web-a'' ''web-a'' 2,
      newVersionedStatefulSetPod (webSet 3 ''a'' 0) (webSet 3 ''a'' 0) ''web-a'' ''web-a'' 2]"
  by code_simp

section \<open>Errors in the pass: claim C4\<close>




section \<open>The revision manager: claims C6 and C9\<close>

text \<open>
  Claim C6. Given a sorted list of revisions in which some revision is equivalent to the
  candidate and the last one is not, and a store whose update succeeds: the update
  revision returned is the last equivalent revision with its Revision set to the
  candidate's, which is the next revision number; the only call is the store's update of
  that revision, so no revision is created.
\<close>

theorem rollback_bumps_equivalent_revision:
  assumes "SortControllerRevisions revisions = revisions"
    and "cc = (case CollisionCount (setStatus ss) of None \<Rightarrow> 0 | Some c \<Rightarrow> c)"
    and "newRevision env ss (nextRevision revisions) cc = Inr candidate"
    and "FindEqualRevisions revisions candidate \<noteq> []"
    and "\<not> EqualRevision (last revisions) candidate"
    and "failure env (trace w)
           (UpdateControllerRevision (last (FindEqualRevisions revisions candidate))
              (revRevision candidate)) = None"
  shows "getStatefulSetRevisions env ss revisions w =
           ((Inr (findCurrentRevision ss revisions
                    ((last (FindEqualRevisions revisions candidate))
                       \<lparr>revRevision := revRevision candidate\<rparr>),
                  (last (FindEqualRevisions revisions candidate))
                    \<lparr>revRevision := revRevision candidate\<rparr>), cc),
            \<lparr>store = storeEffect
                       (UpdateControllerRevision (last (FindEqualRevisions revisions candidate))
                          (revRevision candidate)) (store w),
             trace = trace w @
                       [UpdateControllerRevision (last (FindEqualRevisions revisions candidate))
                          (revRevision candidate)]\<rparr>) \<and>
         revRevision candidate = nextRevision revisions"
proof -
  let ?eq = "FindEqualRevisions revisions candidate"
  from assms(4) have nonempty: "revisions \<noteq> []" by (auto simp: FindEqualRevisions_def)
  from assms(4) have "last ?eq \<in> set ?eq" by simp
  then have "revData (last ?eq) = revData candidate"
    by (simp add: FindEqualRevisions_def EqualRevision_def)
  with assms(5) have differ: "\<not> EqualRevision (last revisions) (last ?eq)"
    by (simp add: EqualRevision_def)
  from assms(4) nonempty differ assms(6) have choose:
    "chooseUpdateRevision env ss revisions (int (length revisions)) candidate cc w =
       ((Inr ((last ?eq)\<lparr>revRevision := revRevision candidate\<rparr>), cc),
        \<lparr>store = storeEffect (UpdateControllerRevision (last ?eq) (revRevision candidate)) (store w),
         trace = trace w @ [UpdateControllerRevision (last ?eq) (revRevision candidate)]\<rparr>)"
    by (simp add: chooseUpdateRevision_def controllerHistory_Update_def invoke_def Let_def index_last)
  from assms(3) have "revRevision candidate = nextRevision revisions"
    by (auto simp: newRevision_def)
  with assms(1,2,3) choose show ?thesis
    by (simp add: getStatefulSetRevisions_def Let_def)
qed

text \<open>Scenario S5: revisions R1 (template A, Revision 1) and R2 (template B, Revision 2),
  and the set's template now A. The update revision is R1 with Revision 3.\<close>

theorem rollback_bumps_equivalent_revision_witness:
  "getStatefulSetRevisions quiet (webSet 3 ''a'' 0) [revisionA, revisionB]
     \<lparr>store = [revisionA, revisionB], trace = []\<rparr> =
     ((Inr (revisionA, revisionA\<lparr>revRevision := 3\<rparr>), 0),
      \<lparr>store = [revisionA\<lparr>revRevision := 3\<rparr>, revisionB],
       trace = [UpdateControllerRevision revisionA 3]\<rparr>)"
proof -
  let ?candidate = "\<lparr>revName = ''web-a'', revRevision = 3, revCreated = 0, revData = ''a''\<rparr>"
  have sorted: "SortControllerRevisions [revisionA, revisionB] = [revisionA, revisionB]"
    by code_simp
  have cc: "(0::int) = (case CollisionCount (setStatus (webSet 3 ''a'' 0)) of None \<Rightarrow> 0 | Some c \<Rightarrow> c)"
    by code_simp
  have cand: "newRevision quiet (webSet 3 ''a'' 0) (nextRevision [revisionA, revisionB]) 0 =
      Inr ?candidate"
    by code_simp
  have eq: "FindEqualRevisions [revisionA, revisionB] ?candidate = [revisionA]"
    by code_simp
  then have some: "FindEqualRevisions [revisionA, revisionB] ?candidate \<noteq> []" by simp
  have notlast: "\<not> EqualRevision (last [revisionA, revisionB]) ?candidate"
    by code_simp
  have ok: "failure quiet (trace \<lparr>store = [revisionA, revisionB], trace = []\<rparr>)
      (UpdateControllerRevision (last (FindEqualRevisions [revisionA, revisionB] ?candidate))
         (revRevision ?candidate)) = None"
    by (simp add: quiet_def)
  have cur: "findCurrentRevision (webSet 3 ''a'' 0) [revisionA, revisionB]
      (revisionA\<lparr>revRevision := 3\<rparr>) = revisionA"
    by code_simp
  have names: "revName revisionB \<noteq> revName revisionA"
    by code_simp
  from rollback_bumps_equivalent_revision[OF sorted cc cand some notlast ok]
  show ?thesis by (simp add: eq cur names)
qed

text \<open>
  Claim C9. \<^verbatim>\<open>getStatefulSetRevisions\<close> never indexes out of range, whatever the list of
  revisions (the empty list included), the set, the platform and the world: the model
  returns \<open>Panic\<close> exactly where \<^verbatim>\<open>revisions[revisionCount-1]\<close> or
  \<^verbatim>\<open>equalRevisions[equalCount-1]\<close> would be out of range, and it never does.
\<close>

theorem getStatefulSetRevisions_index_in_range:
  "fst (fst (getStatefulSetRevisions env ss revisions w)) \<noteq> Inl Panic"
proof -
  let ?cc = "case CollisionCount (setStatus ss) of None \<Rightarrow> 0 | Some c \<Rightarrow> c"
  obtain candidate where c:
    "newRevision env ss (nextRevision (SortControllerRevisions revisions)) ?cc = Inr candidate"
    by (simp add: newRevision_def)
  have "fst (fst (chooseUpdateRevision env ss (SortControllerRevisions revisions)
          (int (length revisions)) candidate ?cc w)) \<noteq> Inl Panic"
    by (rule chooseUpdateRevision_in_range) simp
  with c show ?thesis
    by (auto simp: getStatefulSetRevisions_def Let_def split: prod.splits sum.splits)
qed

section \<open>The history truncation: claim C7\<close>



end
